theory Spec2Isabelle
  imports Complex_Main
begin

section \<open>GenericRA: the checkpointed experiment template\<close>

text \<open>
  A shallow embedding of \<^verbatim>\<open>src/src/experiment.py\<close> (class \<^verbatim>\<open>ExperimentTemplate\<close>).
  The instance is a record that every method takes and returns; the output directory, the
  clock, the standard output and the outcome of file-system calls form a second record,
  the world. A method that can raise returns \<open>exc + 'a\<close> together with the instance and
  the world as they are at the moment of the raise, because Python keeps every mutation
  made before an exception.
\<close>

subsection \<open>Exceptions\<close>

text \<open>
  \<^verbatim>\<open>run_single\<close> and \<^verbatim>\<open>_load_progress\<close> catch with \<^verbatim>\<open>except Exception\<close>, a test on the
  class of the exception. \<open>Exception msg\<close> is an instance of \<^verbatim>\<open>Exception\<close> or of one of
  its subclasses (\<^verbatim>\<open>ValueError\<close>, \<^verbatim>\<open>OSError\<close>, \<^verbatim>\<open>ZeroDivisionError\<close>, ...) with
  \<^verbatim>\<open>str(e) == msg\<close>; \<open>BaseException msg\<close> is an instance of a class outside
  \<^verbatim>\<open>Exception\<close> (\<^verbatim>\<open>KeyboardInterrupt\<close>, \<^verbatim>\<open>SystemExit\<close>, \<^verbatim>\<open>GeneratorExit\<close>).
\<close>

datatype exc = Exception string | BaseException string

subsection \<open>Data\<close>

text \<open>The values of the metadata dictionary are strings and integers.\<close>

datatype mval = MStr string | MInt int

type_synonym metadata = "string \<Rightarrow> mval option"

text \<open>
  The two dictionaries that \<^verbatim>\<open>run_single\<close> builds: \<^verbatim>\<open>result\<close> with the keys iteration,
  input, processed_input, output, timestamp, status, and \<^verbatim>\<open>error_result\<close> with the keys
  iteration, input, error, timestamp, status. The value of the key status is fixed by the
  constructor. \<open>'v\<close> is the type of the payloads (Python's \<^verbatim>\<open>Any\<close>).
\<close>

datatype 'v result_dict =
    SuccessResult int 'v 'v 'v string
  | ErrorResult int 'v string string

fun result_status :: "'v result_dict \<Rightarrow> string" where
  "result_status (SuccessResult i x p out ts) = ''success''"
| "result_status (ErrorResult i x msg ts) = ''error''"

text \<open>
  One reading of \<^verbatim>\<open>datetime.now()\<close> with the two renderings the code uses,
  \<^verbatim>\<open>isoformat()\<close> and \<^verbatim>\<open>strftime("%Y%m%d_%H%M%S")\<close>, and the instant itself as a number,
  which is the modification time of a file written at that instant.
\<close>

record instant =
  isoformat :: string
  strftime :: string
  epoch :: nat

text \<open>
  What \<^verbatim>\<open>pickle.load\<close> returns on a checkpoint file: a dictionary, of which
  \<^verbatim>\<open>_load_progress\<close> reads the keys metadata, results and current_iteration with
  \<^verbatim>\<open>.get\<close> (each may be absent), or an object without a \<^verbatim>\<open>get\<close> method, on which the
  first \<^verbatim>\<open>.get\<close> raises \<^verbatim>\<open>AttributeError\<close> with the given message.
\<close>

datatype 'v pickled =
    SaveData "metadata option" "'v result_dict list option" "int option" "string option"
  | NonDict string

record json_data =
  json_metadata :: metadata
  json_current_iteration :: int
  json_experiment_name :: string
  json_results_count :: nat

text \<open>
  The content of a file: a pickle, the JSON companion, bytes on which \<^verbatim>\<open>open\<close> or
  \<^verbatim>\<open>pickle.load\<close> raises an exception with the given message, or a pickle whose
  loading raises an exception outside \<^verbatim>\<open>Exception\<close> (unpickling calls the callables
  that the pickle names, \<^verbatim>\<open>sys.exit\<close> for one).
\<close>

datatype 'v content =
    PickleOf "'v pickled"
  | JsonOf json_data
  | Garbage string
  | Aborting string

fun pickle_load :: "'v content \<Rightarrow> exc + 'v pickled" where
  "pickle_load (PickleOf p) = Inr p"
| "pickle_load (JsonOf j) = Inl (Exception ''invalid load key, '{'.'')"
| "pickle_load (Garbage msg) = Inl (Exception msg)"
| "pickle_load (Aborting msg) = Inl (BaseException msg)"

text \<open>
  An entry of a directory. \<open>stat_error\<close> is the message of the \<^verbatim>\<open>OSError\<close> that
  \<^verbatim>\<open>stat()\<close> raises on the entry, if it raises: \<^verbatim>\<open>glob\<close> lists a dangling symbolic
  link, and \<^verbatim>\<open>stat()\<close> on it raises \<^verbatim>\<open>FileNotFoundError\<close>.
\<close>

record 'v fs_file =
  dir :: string
  fname :: string
  mtime :: nat
  stat_error :: "string option"
  content :: "'v content"

text \<open>The lines the code prints, one constructor for each \<^verbatim>\<open>print\<close> statement.\<close>

datatype print =
    ProgressSaved string
  | LoadedProgress string
  | ResumingFrom int
  | FailedToLoad string string
  | StateReset
  | ExperimentFinished

text \<open>
  The world: the files in directory order (the order in which \<^verbatim>\<open>glob\<close> yields them), the
  clock, the standard output, and for each file-system call that can fail the message of
  the \<^verbatim>\<open>OSError\<close> it raises, if it raises. File names and experiment names are single
  path components, and a directory is named by its path as a string.
\<close>

record 'v world =
  files :: "'v fs_file list"
  now :: instant
  stdout :: "print list"
  write_error :: "string \<Rightarrow> string \<Rightarrow> string option"
  mkdir_error :: "string \<Rightarrow> string option"

record 'v experiment_template =
  experiment_name :: string
  output_dir :: string
  save_interval :: int
  auto_save :: bool
  current_iteration :: int
  total_iterations :: int
  benchmark_dir :: "string option"
  log_dir :: "string option"
  results :: "'v result_dict list"
  metadata :: metadata

text \<open>
  The methods a subclass supplies. Each returns a value or raises; the spec takes them to
  be pure, so they do not receive the instance.
\<close>

record 'v hooks =
  validate_input :: "'v \<Rightarrow> exc + bool"
  process_input :: "'v \<Rightarrow> exc + 'v"
  generate_output :: "'v \<Rightarrow> exc + 'v"
  validate_output :: "'v \<Rightarrow> exc + bool"

subsection \<open>Paths and the file system\<close>

definition path_join :: "string \<Rightarrow> string \<Rightarrow> string" where
  "path_join d n = d @ ''/'' @ n"

text \<open>\<^verbatim>\<open>PurePath.suffix\<close>: from the last dot, unless it is the first or the last character.\<close>

definition suffix_of :: "string \<Rightarrow> string" where
  "suffix_of name =
     (let ext = takeWhile (\<lambda>c. c \<noteq> CHR ''.'') (rev name)
      in if CHR ''.'' \<in> set name \<and> ext \<noteq> [] \<and> length ext + 1 < length name
         then CHR ''.'' # rev ext else [])"

definition with_suffix :: "string \<Rightarrow> string \<Rightarrow> string" where
  "with_suffix name s = take (length name - length (suffix_of name)) name @ s"

text \<open>
  Opening a file for writing replaces the file of that name, or creates it; the file
  written is a regular file.
\<close>

definition write_file :: "string \<Rightarrow> string \<Rightarrow> 'v content \<Rightarrow> 'v world \<Rightarrow> 'v world" where
  "write_file d n c w =
     w\<lparr>files := filter (\<lambda>f. \<not> (dir f = d \<and> fname f = n)) (files w)
               @ [\<lparr>dir = d, fname = n, mtime = epoch (now w), stat_error = None,
                   content = c\<rparr>]\<rparr>"

definition print_line :: "print \<Rightarrow> 'v world \<Rightarrow> 'v world" where
  "print_line l w = w\<lparr>stdout := stdout w @ [l]\<rparr>"

subsection \<open>Shell patterns\<close>

text \<open>
  \<^verbatim>\<open>Path.glob\<close> matches each name of the directory against the pattern with
  \<^verbatim>\<open>fnmatch\<close>, case-sensitively and with no special treatment of a leading dot:
  \<^verbatim>\<open>*\<close> matches any string, \<^verbatim>\<open>?\<close> any character, \<^verbatim>\<open>[seq]\<close> any character of
  \<^verbatim>\<open>seq\<close>, \<^verbatim>\<open>[!seq]\<close> any character not in it, where \<^verbatim>\<open>seq\<close> holds characters and
  ranges \<^verbatim>\<open>a-z\<close>; a \<^verbatim>\<open>]\<close> right after the opening bracket (or after \<^verbatim>\<open>!\<close>) belongs to
  \<^verbatim>\<open>seq\<close>; an opening bracket with no closing one is an ordinary character. A range whose
  first character is greater than its last is empty.
\<close>

datatype class_item = Single char | Range char char

fun class_items :: "string \<Rightarrow> class_item list" where
  "class_items (x # m # y # rest) =
     (if m = CHR ''-'' then Range x y # class_items rest
      else Single x # class_items (m # y # rest))"
| "class_items (x # rest) = Single x # class_items rest"
| "class_items [] = []"

fun in_item :: "char \<Rightarrow> class_item \<Rightarrow> bool" where
  "in_item c (Single x) = (c = x)"
| "in_item c (Range lo hi) =
     ((of_char lo :: nat) \<le> of_char c \<and> (of_char c :: nat) \<le> of_char hi)"

definition in_class :: "char \<Rightarrow> string \<Rightarrow> bool" where
  "in_class c stuff = list_ex (in_item c) (class_items stuff)"

text \<open>
  The text after an opening bracket: whether the class is negated, its members, and the
  rest of the pattern after the closing bracket; \<open>None\<close> when no bracket closes it.
\<close>

definition bracket :: "string \<Rightarrow> (bool \<times> string \<times> string) option" where
  "bracket p =
     (let neg = (p \<noteq> [] \<and> hd p = CHR ''!'');
          p1 = (if neg then tl p else p);
          lead = (p1 \<noteq> [] \<and> hd p1 = CHR '']'');
          p2 = (if lead then tl p1 else p1);
          body = takeWhile (\<lambda>c. c \<noteq> CHR '']'') p2;
          rest = dropWhile (\<lambda>c. c \<noteq> CHR '']'') p2
      in if rest = [] then None
         else Some (neg, (if lead then '']'' else []) @ body, tl rest))"

fun fnmatch :: "string \<Rightarrow> string \<Rightarrow> bool" where
  "fnmatch [] s = (s = [])"
| "fnmatch (c # p) [] = (if c = CHR ''*'' then fnmatch p [] else False)"
| "fnmatch (c # p) (x # s) =
     (if c = CHR ''*'' then (if fnmatch p (x # s) then True else fnmatch (c # p) s)
      else if c = CHR ''?'' then fnmatch p s
      else if c = CHR ''['' then
        (case bracket p of
           None \<Rightarrow> (if x = c then fnmatch p s else False)
         | Some t \<Rightarrow>
             (if in_class x (fst (snd t)) \<noteq> fst t then fnmatch (snd (snd t)) s else False))
      else (if x = c then fnmatch p s else False))"

text \<open>
  \<^verbatim>\<open>list(Path.glob(pattern))\<close> for a pattern of one path component, as the patterns of
  this program are (they end in \<^verbatim>\<open>.pkl\<close>, so none is \<^verbatim>\<open>**\<close> alone): a component that
  contains \<^verbatim>\<open>**\<close> makes \<^verbatim>\<open>glob\<close> raise \<^verbatim>\<open>ValueError\<close>; otherwise the entries of
  the directory whose names match are listed.
\<close>

fun double_star :: "string \<Rightarrow> bool" where
  "double_star (a # b # rest) =
     (if a = CHR ''*'' \<and> b = CHR ''*'' then True else double_star (b # rest))"
| "double_star rest = False"

definition glob :: "string \<Rightarrow> string \<Rightarrow> 'v world \<Rightarrow> exc + 'v fs_file list" where
  "glob d pattern w =
     (if double_star pattern
      then Inl (Exception ''Invalid pattern: '**' can only be an entire path component'')
      else Inr (filter (\<lambda>f. dir f = d \<and> fnmatch pattern (fname f)) (files w)))"

text \<open>
  \<^verbatim>\<open>max(save_files, key=lambda x: x.stat().st_mtime)\<close> on a non-empty list. The key is
  computed for every element in the order of the list, so the first entry on which
  \<^verbatim>\<open>stat()\<close> raises makes \<^verbatim>\<open>max\<close> raise; otherwise the result is the first element
  whose key no other element exceeds.
\<close>

fun first_stat_error :: "'v fs_file list \<Rightarrow> string option" where
  "first_stat_error [] = None"
| "first_stat_error (g # gs) =
     (case stat_error g of Some msg \<Rightarrow> Some msg | None \<Rightarrow> first_stat_error gs)"

definition max_mtime :: "'v fs_file \<Rightarrow> 'v fs_file list \<Rightarrow> 'v fs_file" where
  "max_mtime f fs = foldl (\<lambda>best g. if mtime best < mtime g then g else best) f fs"

subsection \<open>The methods\<close>

definition mkdir :: "string \<Rightarrow> 'v world \<Rightarrow> exc + unit" where
  "mkdir d w = (case mkdir_error w d of Some msg \<Rightarrow> Inl (Exception msg) | None \<Rightarrow> Inr ())"

definition init_logging ::
  "'v experiment_template \<Rightarrow> 'v world \<Rightarrow> (exc + unit) \<times> 'v experiment_template \<times> 'v world" where
  "init_logging e w =
     (let e1 = e\<lparr>log_dir := Some (path_join (output_dir e) ''logs'')\<rparr>
      in (mkdir (path_join (output_dir e) ''logs'') w, e1, w))"

definition init_benchmark_dir ::
  "'v experiment_template \<Rightarrow> 'v world \<Rightarrow> (exc + unit) \<times> 'v experiment_template \<times> 'v world" where
  "init_benchmark_dir e w =
     (let e1 = e\<lparr>benchmark_dir := Some (path_join (output_dir e) ''benchmarks'')\<rparr>
      in (mkdir (path_join (output_dir e) ''benchmarks'') w, e1, w))"

definition save ::
  "string option \<Rightarrow> 'v experiment_template \<Rightarrow> 'v world \<Rightarrow> (exc + string) \<times> 'v experiment_template \<times> 'v world"
  where
  "save filename_arg e w =
     (let filename = (case filename_arg of
                        None \<Rightarrow> experiment_name e @ ''_progress_'' @ strftime (now w) @ ''.pkl''
                      | Some n \<Rightarrow> n);
          filepath = path_join (output_dir e) filename;
          e1 = e\<lparr>metadata := (metadata e)
                  (''last_save'' \<mapsto> MStr (isoformat (now w)),
                   ''current_iteration'' \<mapsto> MInt (current_iteration e),
                   ''total_results'' \<mapsto> MInt (int (length (results e))),
                   ''status'' \<mapsto> MStr ''running'')\<rparr>;
          save_data = SaveData (Some (metadata e1)) (Some (results e1))
                        (Some (current_iteration e1)) (Some (experiment_name e1))
      in case write_error w (output_dir e) filename of
           Some msg \<Rightarrow> (Inl (Exception msg), e1, w)
         | None \<Rightarrow>
             (let w1 = write_file (output_dir e) filename (PickleOf save_data) w;
                  json_name = with_suffix filename ''.json'';
                  json = \<lparr>json_metadata = metadata e1,
                          json_current_iteration = current_iteration e1,
                          json_experiment_name = experiment_name e1,
                          json_results_count = length (results e1)\<rparr>
              in case write_error w1 (output_dir e) json_name of
                   Some msg \<Rightarrow> (Inl (Exception msg), e1, w1)
                 | None \<Rightarrow>
                     (Inr filepath, e1,
                      print_line (ProgressSaved filepath)
                        (write_file (output_dir e) json_name (JsonOf json) w1))))"

text \<open>
  The body of the \<^verbatim>\<open>try\<close> statement of \<^verbatim>\<open>run_single\<close>. The hooks run in the order
  of the source; the result is appended and the counter incremented before the auto-save
  test, whose \<^verbatim>\<open>%\<close> raises \<^verbatim>\<open>ZeroDivisionError\<close> on a zero interval (only evaluated
  when \<^verbatim>\<open>auto_save\<close> holds, as \<^verbatim>\<open>and\<close> short-circuits). Python's \<^verbatim>\<open>%\<close> on integers is
  floored, as \<open>mod\<close> on \<open>int\<close> is.
\<close>

definition try_body ::
  "'v hooks \<Rightarrow> 'v \<Rightarrow> 'v experiment_template \<Rightarrow> 'v world
     \<Rightarrow> (exc + 'v result_dict) \<times> 'v experiment_template \<times> 'v world" where
  "try_body hk input_data e w =
     (case validate_input hk input_data of
        Inl ex \<Rightarrow> (Inl ex, e, w)
      | Inr valid \<Rightarrow>
        if \<not> valid then (Inl (Exception ''Input validation failed''), e, w)
        else
          (case process_input hk input_data of
             Inl ex \<Rightarrow> (Inl ex, e, w)
           | Inr processed \<Rightarrow>
             (case generate_output hk processed of
                Inl ex \<Rightarrow> (Inl ex, e, w)
              | Inr output_data \<Rightarrow>
                (case validate_output hk output_data of
                   Inl ex \<Rightarrow> (Inl ex, e, w)
                 | Inr valid_out \<Rightarrow>
                   if \<not> valid_out then (Inl (Exception ''Output validation failed''), e, w)
                   else
                     (let result = SuccessResult (current_iteration e) input_data processed
                                     output_data (isoformat (now w));
                          e1 = e\<lparr>results := results e @ [result]\<rparr>;
                          e2 = e1\<lparr>current_iteration := current_iteration e1 + 1\<rparr>
                      in if auto_save e2 then
                           (if save_interval e2 = 0
                            then (Inl (Exception ''integer modulo by zero''), e2, w)
                            else if current_iteration e2 mod save_interval e2 = 0
                            then (case save None e2 w of
                                    (Inl ex, e3, w3) \<Rightarrow> (Inl ex, e3, w3)
                                  | (Inr path, e3, w3) \<Rightarrow> (Inr result, e3, w3))
                            else (Inr result, e2, w))
                         else (Inr result, e2, w))))))"

text \<open>
  \<^verbatim>\<open>run_single\<close>: the \<^verbatim>\<open>try\<close> body, and the handler of \<^verbatim>\<open>except Exception as e\<close>,
  which appends an error entry and increments the counter. An exception outside
  \<^verbatim>\<open>Exception\<close> is not handled.
\<close>

definition run_single ::
  "'v hooks \<Rightarrow> 'v \<Rightarrow> 'v experiment_template \<Rightarrow> 'v world
     \<Rightarrow> (exc + 'v result_dict) \<times> 'v experiment_template \<times> 'v world" where
  "run_single hk input_data e w =
     (case try_body hk input_data e w of
        (Inr result, e1, w1) \<Rightarrow> (Inr result, e1, w1)
      | (Inl (Exception msg), e1, w1) \<Rightarrow>
          (let error_result = ErrorResult (current_iteration e1) input_data msg
                                (isoformat (now w1));
               e2 = e1\<lparr>results := results e1 @ [error_result]\<rparr>;
               e3 = e2\<lparr>current_iteration := current_iteration e2 + 1\<rparr>
           in (Inr error_result, e3, w1))
      | (Inl (BaseException msg), e1, w1) \<Rightarrow> (Inl (BaseException msg), e1, w1))"

text \<open>
  \<^verbatim>\<open>_load_progress\<close>. The calls of \<^verbatim>\<open>glob\<close> and of \<^verbatim>\<open>max\<close> are before the
  \<^verbatim>\<open>try\<close> statement, so what they raise leaves the method. Inside it, the handler is
  \<^verbatim>\<open>except Exception\<close>; the three \<^verbatim>\<open>.get\<close> calls cannot fail on a dictionary, and on
  another object the first one raises before any attribute is assigned.
\<close>

definition load_progress ::
  "'v experiment_template \<Rightarrow> 'v world
     \<Rightarrow> (exc + bool) \<times> 'v experiment_template \<times> 'v world" where
  "load_progress e w =
     (let pattern = experiment_name e @ ''_progress_*.pkl''
      in case glob (output_dir e) pattern w of
           Inl ex \<Rightarrow> (Inl ex, e, w)
         | Inr save_files \<Rightarrow>
           (case save_files of
              [] \<Rightarrow> (Inr False, e, w)
            | f # fs \<Rightarrow>
                (case first_stat_error (f # fs) of
                   Some msg \<Rightarrow> (Inl (Exception msg), e, w)
                 | None \<Rightarrow>
                   (let latest_file = max_mtime f fs;
                        latest_path = path_join (dir latest_file) (fname latest_file)
                    in case pickle_load (content latest_file) of
                         Inl (Exception msg) \<Rightarrow>
                           (Inr False, e, print_line (FailedToLoad latest_path msg) w)
                       | Inl (BaseException msg) \<Rightarrow> (Inl (BaseException msg), e, w)
                       | Inr (NonDict msg) \<Rightarrow>
                           (Inr False, e, print_line (FailedToLoad latest_path msg) w)
                       | Inr (SaveData md rs it nm) \<Rightarrow>
                           (let e1 = e\<lparr>metadata :=
                                       (case md of None \<Rightarrow> metadata e | Some m \<Rightarrow> m)\<rparr>;
                                e2 = e1\<lparr>results := (case rs of None \<Rightarrow> [] | Some r \<Rightarrow> r)\<rparr>;
                                e3 = e2\<lparr>current_iteration :=
                                        (case it of None \<Rightarrow> 0 | Some i \<Rightarrow> i)\<rparr>
                            in (Inr True, e3,
                                print_line (ResumingFrom (current_iteration e3))
                                  (print_line (LoadedProgress latest_path) w)))))))"

text \<open>
  \<^verbatim>\<open>__init__\<close>, with the defaults of the source written out by the caller
  (\<^verbatim>\<open>output_dir="ExperimentResults"\<close>, \<^verbatim>\<open>save_interval=1\<close>, \<^verbatim>\<open>auto_save=True\<close>).
  The constructor has no handler: what a \<^verbatim>\<open>mkdir\<close> or \<^verbatim>\<open>_load_progress\<close> raises leaves
  it, and the value that \<^verbatim>\<open>_load_progress\<close> returns is not used.
\<close>

definition init ::
  "string \<Rightarrow> string \<Rightarrow> int \<Rightarrow> bool \<Rightarrow> 'v world \<Rightarrow> (exc + 'v experiment_template) \<times> 'v world" where
  "init name out interval auto w =
     (case mkdir out w of
        Inl ex \<Rightarrow> (Inl ex, w)
      | Inr u \<Rightarrow>
        (let e0 = \<lparr>experiment_name = name, output_dir = out, save_interval = interval,
                   auto_save = auto, current_iteration = 0, total_iterations = 0,
                   benchmark_dir = None, log_dir = None, results = [],
                   metadata = [''experiment_name'' \<mapsto> MStr name,
                               ''start_time'' \<mapsto> MStr (isoformat (now w)),
                               ''status'' \<mapsto> MStr ''initialized'']\<rparr>
         in case init_logging e0 w of
              (Inl ex, e1, w1) \<Rightarrow> (Inl ex, w1)
            | (Inr u1, e1, w1) \<Rightarrow>
              (case init_benchmark_dir e1 w1 of
                 (Inl ex, e2, w2) \<Rightarrow> (Inl ex, w2)
               | (Inr u2, e2, w2) \<Rightarrow>
                 (case load_progress e2 w2 of
                    (Inl ex, e3, w3) \<Rightarrow> (Inl ex, w3)
                  | (Inr loaded, e3, w3) \<Rightarrow> (Inr e3, w3)))))"

record summary =
  summary_experiment_name :: string
  summary_current_iteration :: int
  total_results :: nat
  successful_results :: nat
  error_results :: nat
  success_rate :: real
  start_time :: "mval option"
  last_save :: "mval option"
  summary_status :: mval

text \<open>
  \<^verbatim>\<open>get_summary\<close>. The quotient of the two lengths is the exact one; Python rounds it to
  the nearest double.
\<close>

definition get_summary :: "'v experiment_template \<Rightarrow> summary" where
  "get_summary e =
     (let successful = filter (\<lambda>r. result_status r = ''success'') (results e);
          errors = filter (\<lambda>r. result_status r = ''error'') (results e)
      in \<lparr>summary_experiment_name = experiment_name e,
          summary_current_iteration = current_iteration e,
          total_results = length (results e),
          successful_results = length successful,
          error_results = length errors,
          success_rate = (if results e \<noteq> []
                          then real (length successful) / real (length (results e)) else 0),
          start_time = metadata e ''start_time'',
          last_save = metadata e ''last_save'',
          summary_status = (case metadata e ''status'' of
                              None \<Rightarrow> MStr ''unknown'' | Some s \<Rightarrow> s)\<rparr>)"

definition reset :: "'v experiment_template \<Rightarrow> 'v world \<Rightarrow> 'v experiment_template \<times> 'v world" where
  "reset e w =
     (let e1 = e\<lparr>current_iteration := 0\<rparr>;
          e2 = e1\<lparr>results := []\<rparr>;
          e3 = e2\<lparr>metadata := (metadata e2)
                  (''start_time'' \<mapsto> MStr (isoformat (now w)),
                   ''status'' \<mapsto> MStr ''reset'')\<rparr>
      in (e3, print_line StateReset w))"

definition finish ::
  "'v experiment_template \<Rightarrow> 'v world \<Rightarrow> (exc + unit) \<times> 'v experiment_template \<times> 'v world" where
  "finish e w =
     (let e1 = e\<lparr>metadata := (metadata e)
                  (''end_time'' \<mapsto> MStr (isoformat (now w)),
                   ''status'' \<mapsto> MStr ''finished'',
                   ''total_iterations'' \<mapsto> MInt (current_iteration e))\<rparr>
      in case save (Some (experiment_name e1 @ ''_final.pkl'')) e1 w of
           (Inl ex, e2, w2) \<Rightarrow> (Inl ex, e2, w2)
         | (Inr path, e2, w2) \<Rightarrow> (Inr (), e2, print_line ExperimentFinished w2))"

subsection \<open>Concrete instances and worlds\<close>

text \<open>
  The instance \<^verbatim>\<open>__init__\<close> leaves behind when it loads no checkpoint: the assignments
  of the constructor, with the two directories set by \<^verbatim>\<open>init_logging\<close> and
  \<^verbatim>\<open>init_benchmark_dir\<close>.
\<close>

definition constructed ::
  "string \<Rightarrow> string \<Rightarrow> int \<Rightarrow> bool \<Rightarrow> instant \<Rightarrow> 'v experiment_template" where
  "constructed name out interval auto t =
     \<lparr>experiment_name = name, output_dir = out, save_interval = interval,
      auto_save = auto, current_iteration = 0, total_iterations = 0,
      benchmark_dir = Some (path_join out ''benchmarks''),
      log_dir = Some (path_join out ''logs''), results = [],
      metadata = [''experiment_name'' \<mapsto> MStr name,
                  ''start_time'' \<mapsto> MStr (isoformat t),
                  ''status'' \<mapsto> MStr ''initialized'']\<rparr>"

definition noon :: instant where
  "noon = \<lparr>isoformat = ''2024-01-01T12:00:00'', strftime = ''20240101_120000'', epoch = 100\<rparr>"

text \<open>An empty output directory on a disk where every call succeeds.\<close>

definition fresh_world :: "nat world" where
  "fresh_world = \<lparr>files = [], now = noon, stdout = [],
                   write_error = (\<lambda>d n. None), mkdir_error = (\<lambda>d. None)\<rparr>"

text \<open>The same directory on a disk where every write raises.\<close>

definition full_disk :: "nat world" where
  "full_disk = \<lparr>files = [], now = noon, stdout = [],
                 write_error = (\<lambda>d n. Some ''No space left on device''),
                 mkdir_error = (\<lambda>d. None)\<rparr>"

text \<open>A subclass whose hooks accept and return their argument.\<close>

definition passing_hooks :: "nat hooks" where
  "passing_hooks = \<lparr>validate_input = (\<lambda>x. Inr True), process_input = (\<lambda>x. Inr x),
                     generate_output = (\<lambda>x. Inr x), validate_output = (\<lambda>x. Inr True)\<rparr>"

text \<open>A subclass whose \<^verbatim>\<open>process_input\<close> raises \<^verbatim>\<open>RuntimeError("boom")\<close>.\<close>

definition raising_hooks :: "nat hooks" where
  "raising_hooks = passing_hooks\<lparr>process_input := (\<lambda>x. Inl (Exception ''boom''))\<rparr>"


text \<open>An instance holding one success and one error.\<close>

definition mixed :: "nat experiment_template" where
  "mixed = (constructed ''demo'' ''out'' 1 True noon)
             \<lparr>current_iteration := 2,
              results := [SuccessResult 0 7 7 7 ''2024-01-01T12:00:00'',
                          ErrorResult 1 8 ''boom'' ''2024-01-01T12:00:01'']\<rparr>"

text \<open>An output directory whose only checkpoint cannot be unpickled.\<close>

definition corrupt_world :: "nat world" where
  "corrupt_world = fresh_world
     \<lparr>files := [\<lparr>dir = ''out'', fname = ''demo_progress_20240101_090000.pkl'', mtime = 9,
                  stat_error = None, content = Garbage ''pickle data was truncated''\<rparr>]\<rparr>"

text \<open>
  An output directory whose only entry is a symbolic link, named like a checkpoint of
  "demo", to a file that does not exist.
\<close>

definition dangling_link :: "nat world" where
  "dangling_link = fresh_world
     \<lparr>files := [\<lparr>dir = ''out'', fname = ''demo_progress_20240101_090000.pkl'', mtime = 0,
                  stat_error = Some ''No such file or directory'',
                  content = Garbage ''No such file or directory''\<rparr>]\<rparr>"

text \<open>
  An output directory with two checkpoints of "demo", the one with the smaller name
  written later, and a later file of another experiment.
\<close>

definition two_checkpoints :: "nat world" where
  "two_checkpoints = fresh_world
     \<lparr>files :=
        [\<lparr>dir = ''out'', fname = ''demo_progress_20240102_000000.pkl'', mtime = 5,
          stat_error = None,
          content = PickleOf (SaveData (Some [''status'' \<mapsto> MStr ''running''])
                      (Some []) (Some 0) (Some ''demo''))\<rparr>,
         \<lparr>dir = ''out'', fname = ''demo_progress_20240101_000000.pkl'', mtime = 9,
          stat_error = None,
          content = PickleOf (SaveData (Some [''status'' \<mapsto> MStr ''running''])
                      (Some [SuccessResult 0 7 7 7 ''2024-01-01T00:00:00''])
                      (Some 1) (Some ''demo''))\<rparr>,
         \<lparr>dir = ''out'', fname = ''other_progress_20240103_000000.pkl'', mtime = 50,
          stat_error = None,
          content = Garbage ''pickle data was truncated''\<rparr>]\<rparr>"

text \<open>
  An experiment of the given name after one successful iteration (interval 5, so without an
  automatic save), and the outcome of an explicit \<^verbatim>\<open>save()\<close> of it in the empty directory.
\<close>

definition after_one_run :: "string \<Rightarrow> nat experiment_template" where
  "after_one_run name =
     fst (snd (run_single passing_hooks 7 (constructed name ''out'' 5 True noon) fresh_world))"

definition saved :: "string \<Rightarrow> (exc + string) \<times> nat experiment_template \<times> nat world" where
  "saved name = save None (after_one_run name) fresh_world"

text \<open>One call of \<^verbatim>\<open>run_single\<close> with hooks that succeed, on an instance and its world.\<close>

definition step ::
  "nat \<Rightarrow> nat experiment_template \<times> nat world \<Rightarrow> nat experiment_template \<times> nat world" where
  "step x s = snd (run_single passing_hooks x (fst s) (snd s))"

text \<open>The status that a checkpoint file holds in its metadata, if it is a checkpoint.\<close>

definition stored_status :: "'v fs_file \<Rightarrow> mval option" where
  "stored_status f =
     (case content f of
        PickleOf (SaveData (Some md) rs it nm) \<Rightarrow> md ''status''
      | _ \<Rightarrow> None)"

section \<open>Properties\<close>

subsection \<open>Facts shared by the proofs\<close>

lemma save_metadata:
  "metadata (fst (snd (save fn e w))) =
     (metadata e)(''last_save'' \<mapsto> MStr (isoformat (now w)),
                  ''current_iteration'' \<mapsto> MInt (current_iteration e),
                  ''total_results'' \<mapsto> MInt (int (length (results e))),
                  ''status'' \<mapsto> MStr ''running'')"
  by (simp add: save_def Let_def split: option.splits)

lemma init_demo:
  "init ''demo'' ''out'' interval auto fresh_world
     = (Inr (constructed ''demo'' ''out'' interval auto noon), fresh_world)"
  by (simp add: init_def mkdir_def fresh_world_def init_logging_def init_benchmark_dir_def
      load_progress_def glob_def constructed_def Let_def)

lemmas run_defs = run_single_def try_body_def save_def write_file_def print_line_def
  with_suffix_def suffix_of_def path_join_def Let_def

lemma finish_state:
  "fst (snd (finish e w)) =
     fst (snd (save (Some (experiment_name e @ ''_final.pkl''))
       (e\<lparr>metadata := (metadata e)
                  (''end_time'' \<mapsto> MStr (isoformat (now w)),
                   ''status'' \<mapsto> MStr ''finished'',
                   ''total_iterations'' \<mapsto> MInt (current_iteration e))\<rparr>) w))"
  by (simp add: finish_def Let_def split: prod.splits sum.splits)

lemma finish_metadata:
  "metadata (fst (snd (finish e w))) ''status'' = Some (MStr ''running'')
   \<and> metadata (fst (snd (finish e w))) ''last_save'' = Some (MStr (isoformat (now w)))"
  by (simp add: finish_state save_metadata)

lemma save_results: "results (fst (snd (save fn e w))) = results e"
  by (simp add: save_def Let_def split: option.splits)

lemma save_iteration: "current_iteration (fst (snd (save fn e w))) = current_iteration e"
  by (simp add: save_def Let_def split: option.splits)

lemma save_raises: "fst (save fn e w) = Inl ex \<Longrightarrow> \<exists>m. ex = Exception m"
  by (auto simp: save_def Let_def split: option.splits)

lemma save_triple:
  assumes "save fn e w = (s, e3, w3)"
  shows "results e3 = results e" and "current_iteration e3 = current_iteration e"
    and "s = Inl ex \<Longrightarrow> \<exists>m. ex = Exception m"
proof -
  from assms have a: "fst (save fn e w) = s" and b: "fst (snd (save fn e w)) = e3" by simp_all
  show "results e3 = results e" using save_results [of fn e w] b by simp
  show "current_iteration e3 = current_iteration e" using save_iteration [of fn e w] b by simp
  show "s = Inl ex \<Longrightarrow> \<exists>m. ex = Exception m" using save_raises [of fn e w ex] a by simp
qed


lemma try_body_outcome:
  assumes tb: "try_body hk x e w = (r, e1, w1)"
  shows "(\<exists>res. (r = Inr res \<or> (\<exists>m. r = Inl (Exception m)))
            \<and> results e1 = results e @ [res] \<and> result_status res = ''success''
            \<and> current_iteration e1 = current_iteration e + 1)
       \<or> (e1 = e \<and> w1 = w
            \<and> ((\<exists>m. r = Inl (Exception m))
               \<or> (\<exists>m y. r = Inl (BaseException m)
                     \<and> (validate_input hk y = Inl (BaseException m)
                        \<or> process_input hk y = Inl (BaseException m)
                        \<or> generate_output hk y = Inl (BaseException m)
                        \<or> validate_output hk y = Inl (BaseException m)))))"
proof (cases "validate_input hk x")
  case (Inl ex)
  then show ?thesis using tb by (cases ex) (auto simp: try_body_def)
next
  case vi: (Inr valid)
  show ?thesis
  proof (cases valid)
    case False
    then show ?thesis using tb vi by (auto simp: try_body_def)
  next
    case True
    show ?thesis
    proof (cases "process_input hk x")
      case (Inl ex)
      then show ?thesis using tb vi True by (cases ex) (auto simp: try_body_def)
    next
      case pi: (Inr p)
      show ?thesis
      proof (cases "generate_output hk p")
        case (Inl ex)
        then show ?thesis using tb vi True pi by (cases ex) (auto simp: try_body_def)
      next
        case go: (Inr out)
        show ?thesis
        proof (cases "validate_output hk out")
          case (Inl ex)
          then show ?thesis using tb vi True pi go by (cases ex) (auto simp: try_body_def)
        next
          case vo: (Inr valid_out)
          show ?thesis
          proof (cases valid_out)
            case False
            then show ?thesis using tb vi True pi go vo by (auto simp: try_body_def)
          next
            case vt: True
            define res where
              "res = SuccessResult (current_iteration e) x p out (isoformat (now w))"
            define e2 where
              "e2 = e\<lparr>results := results e @ [res],
                     current_iteration := current_iteration e + 1\<rparr>"
            obtain s e3 w3 where sv: "save None e2 w = (s, e3, w3)"
              by (cases "save None e2 w")
            have f1: "results e3 = results e @ [res]"
              and f2: "current_iteration e3 = current_iteration e + 1"
              using save_triple(1,2) [OF sv] by (simp_all add: e2_def)
            have f3: "\<And>ex. s = Inl ex \<Longrightarrow> \<exists>m. ex = Exception m"
              using save_triple(3) [OF sv] .
            have st: "result_status res = ''success''" by (simp add: res_def)
            have unf: "try_body hk x e w =
              (if auto_save e then
                 (if save_interval e = 0
                  then (Inl (Exception ''integer modulo by zero''), e2, w)
                  else if (current_iteration e + 1) mod save_interval e = 0
                  then (case s of Inl ex \<Rightarrow> (Inl ex, e3, w3) | Inr path \<Rightarrow> (Inr res, e3, w3))
                  else (Inr res, e2, w))
               else (Inr res, e2, w))"
              using vi True pi go vo vt sv
              by (simp add: try_body_def Let_def e2_def res_def split: sum.splits)
            have e2r: "results e2 = results e @ [res]"
              and e2i: "current_iteration e2 = current_iteration e + 1"
              by (simp_all add: e2_def)
            show ?thesis
            proof (cases s)
              case (Inl ex)
              then obtain m where "ex = Exception m" using f3 by blast
              then show ?thesis using tb unf Inl f1 f2 e2r e2i st
                by (auto split: if_splits)
            next
              case (Inr path)
              then show ?thesis using tb unf f1 f2 e2r e2i st
                by (auto split: if_splits)
            qed
          qed
        qed
      qed
    qed
  qed
qed


lemma run_single_outcome:
  assumes rs: "run_single hk x e w = (r, e', w')"
  shows "(\<exists>res. r = Inr res \<and> results e' \<noteq> [] \<and> last (results e') = res
            \<and> (result_status res = ''success'' \<or> result_status res = ''error'')
            \<and> take (length (results e)) (results e') = results e
            \<and> int (length (results e')) - current_iteration e'
                = int (length (results e)) - current_iteration e)
       \<or> (\<exists>m y. r = Inl (BaseException m) \<and> e' = e \<and> w' = w
              \<and> (validate_input hk y = Inl (BaseException m)
                 \<or> process_input hk y = Inl (BaseException m)
                 \<or> generate_output hk y = Inl (BaseException m)
                 \<or> validate_output hk y = Inl (BaseException m)))"
proof -
  obtain t e1 w1 where tb: "try_body hk x e w = (t, e1, w1)"
    by (cases "try_body hk x e w")
  from try_body_outcome [OF tb]
  consider
    (ok) res where "t = Inr res" "results e1 = results e @ [res]"
      "result_status res = ''success''" "current_iteration e1 = current_iteration e + 1"
  | (late) m res where "t = Inl (Exception m)" "results e1 = results e @ [res]"
      "current_iteration e1 = current_iteration e + 1"
  | (early) m where "t = Inl (Exception m)" "e1 = e" "w1 = w"
  | (base) m y where "t = Inl (BaseException m)" "e1 = e" "w1 = w"
      "validate_input hk y = Inl (BaseException m)
       \<or> process_input hk y = Inl (BaseException m)
       \<or> generate_output hk y = Inl (BaseException m)
       \<or> validate_output hk y = Inl (BaseException m)"
    by blast
  then show ?thesis
  proof cases
    case ok
    then show ?thesis using rs tb by (auto simp: run_single_def)
  next
    case late
    then show ?thesis using rs tb by (auto simp: run_single_def Let_def)
  next
    case early
    then show ?thesis using rs tb by (auto simp: run_single_def Let_def)
  next
    case base
    then show ?thesis using rs tb by (auto simp: run_single_def)
  qed
qed

lemma run_single_keeps_length:
  assumes "int (length (results e)) = current_iteration e"
  shows "int (length (results (fst (snd (run_single hk x e w)))))
           = current_iteration (fst (snd (run_single hk x e w)))"
proof -
  obtain r e' w' where rs: "run_single hk x e w = (r, e', w')"
    by (cases "run_single hk x e w")
  from run_single_outcome [OF rs] assms rs show ?thesis by auto
qed

lemma max_mtime_in: "max_mtime f fs \<in> set (f # fs)"
  unfolding max_mtime_def
  by (induction fs arbitrary: f) auto

lemma max_mtime_start: "mtime f \<le> mtime (max_mtime f fs)"
  unfolding max_mtime_def
proof (induction fs arbitrary: f)
  case Nil
  then show ?case by simp
next
  case (Cons h fs)
  have "mtime f \<le> mtime (if mtime f < mtime h then h else f)" by simp
  also have "\<dots> \<le> mtime (foldl (\<lambda>best g. if mtime best < mtime g then g else best)
                         (if mtime f < mtime h then h else f) fs)"
    by (rule Cons.IH)
  finally show ?case by simp
qed

lemma max_mtime_ge: "g \<in> set (f # fs) \<Longrightarrow> mtime g \<le> mtime (max_mtime f fs)"
proof (induction fs arbitrary: f)
  case Nil
  then show ?case by (simp add: max_mtime_def)
next
  case (Cons h fs)
  let ?b = "if mtime f < mtime h then h else f"
  have step: "max_mtime f (h # fs) = max_mtime ?b fs" by (simp add: max_mtime_def)
  have start: "mtime ?b \<le> mtime (max_mtime ?b fs)" by (rule max_mtime_start)
  from Cons.prems consider "g = f" | "g = h" | "g \<in> set fs" by auto
  then show ?case
  proof cases
    case 1
    then show ?thesis using start step by (auto split: if_splits)
  next
    case 2
    then show ?thesis using start step by (auto split: if_splits)
  next
    case 3
    then have "g \<in> set (?b # fs)" by simp
    then show ?thesis using Cons.IH [of ?b] step by simp
  qed
qed

lemma load_progress_none:
  "glob (output_dir e) (experiment_name e @ ''_progress_*.pkl'') w = Inr []
     \<Longrightarrow> load_progress e w = (Inr False, e, w)"
  by (simp add: load_progress_def Let_def)

lemma load_progress_raises:
  "glob (output_dir e) (experiment_name e @ ''_progress_*.pkl'') w = Inl ex
     \<Longrightarrow> load_progress e w = (Inl ex, e, w)"
  "glob (output_dir e) (experiment_name e @ ''_progress_*.pkl'') w = Inr (f # fs)
     \<Longrightarrow> first_stat_error (f # fs) = Some msg
     \<Longrightarrow> load_progress e w = (Inl (Exception msg), e, w)"
  "glob (output_dir e) (experiment_name e @ ''_progress_*.pkl'') w = Inr (f # fs)
     \<Longrightarrow> first_stat_error (f # fs) = None
     \<Longrightarrow> pickle_load (content (max_mtime f fs)) = Inl (BaseException msg)
     \<Longrightarrow> load_progress e w = (Inl (BaseException msg), e, w)"
  by (simp_all add: load_progress_def Let_def)

lemma load_progress_failed:
  assumes "glob (output_dir e) (experiment_name e @ ''_progress_*.pkl'') w = Inr (f # fs)"
    and "first_stat_error (f # fs) = None"
    and "pickle_load (content (max_mtime f fs)) = Inl (Exception msg)
         \<or> pickle_load (content (max_mtime f fs)) = Inr (NonDict msg)"
  shows "load_progress e w =
           (Inr False, e,
            print_line (FailedToLoad
              (path_join (dir (max_mtime f fs)) (fname (max_mtime f fs))) msg) w)"
proof -
  from assms(3) show ?thesis
  proof
    assume "pickle_load (content (max_mtime f fs)) = Inl (Exception msg)"
    then show ?thesis using assms(1,2) by (simp add: load_progress_def Let_def)
  next
    assume "pickle_load (content (max_mtime f fs)) = Inr (NonDict msg)"
    then show ?thesis using assms(1,2) by (simp add: load_progress_def Let_def)
  qed
qed

lemma load_progress_loaded:
  assumes "glob (output_dir e) (experiment_name e @ ''_progress_*.pkl'') w = Inr (f # fs)"
    and "first_stat_error (f # fs) = None"
    and "pickle_load (content (max_mtime f fs)) = Inr (SaveData md rs it nm)"
  shows "fst (load_progress e w) = Inr True"
    and "fst (snd (load_progress e w)) =
           e\<lparr>metadata := (case md of None \<Rightarrow> metadata e | Some m \<Rightarrow> m),
             results := (case rs of None \<Rightarrow> [] | Some r \<Rightarrow> r),
             current_iteration := (case it of None \<Rightarrow> 0 | Some i \<Rightarrow> i)\<rparr>"
  using assms by (simp_all add: load_progress_def Let_def)

lemma init_loads:
  assumes "mkdir_error w out = None" "mkdir_error w (path_join out ''logs'') = None"
    "mkdir_error w (path_join out ''benchmarks'') = None"
  shows "init name out interval auto w =
           (case load_progress (constructed name out interval auto (now w)) w of
              (Inl ex, e3, w3) \<Rightarrow> (Inl ex, w3)
            | (Inr loaded, e3, w3) \<Rightarrow> (Inr e3, w3))"
  using assms
  by (simp add: init_def mkdir_def init_logging_def init_benchmark_dir_def constructed_def
      Let_def)

lemma write_error_write_file [simp]: "write_error (write_file d n c w) = write_error w"
  by (simp add: write_file_def)

lemma constructed_fields [simp]:
  "experiment_name (constructed name out interval auto t) = name"
  "output_dir (constructed name out interval auto t) = out"
  "current_iteration (constructed name out interval auto t) = 0"
  "results (constructed name out interval auto t) = []"
  "metadata (constructed name out interval auto t) ''status'' = Some (MStr ''initialized'')"
  by (simp_all add: constructed_def)

subsection \<open>reset\<close>

text \<open>
  C8. \<^verbatim>\<open>reset()\<close> sets the iteration counter to 0 and the results to the empty list,
  stamps a new start time and sets the status to "reset"; the experiment name, the output
  directory and the files on disk are unchanged.
\<close>

theorem reset_clears_state:
  "current_iteration (fst (reset e w)) = 0
   \<and> results (fst (reset e w)) = []
   \<and> metadata (fst (reset e w)) ''start_time'' = Some (MStr (isoformat (now w)))
   \<and> metadata (fst (reset e w)) ''status'' = Some (MStr ''reset'')
   \<and> experiment_name (fst (reset e w)) = experiment_name e
   \<and> output_dir (fst (reset e w)) = output_dir e
   \<and> files (snd (reset e w)) = files w"
  by (simp add: reset_def print_line_def Let_def)

theorem reset_clears_state_witness:
  "current_iteration (fst (reset mixed fresh_world)) = 0
   \<and> results (fst (reset mixed fresh_world)) = []
   \<and> metadata (fst (reset mixed fresh_world)) ''status'' = Some (MStr ''reset'')
   \<and> experiment_name (fst (reset mixed fresh_world)) = ''demo''
   \<and> files (snd (reset mixed fresh_world)) = []"
  using reset_clears_state [of mixed fresh_world]
  by (simp add: mixed_def constructed_def fresh_world_def)

subsection \<open>get_summary\<close>

text \<open>
  C9. \<^verbatim>\<open>get_summary\<close> reports as success rate the number of results with status
  "success" divided by the number of results; the rate lies between 0 and 1 in every
  state and is 0 when there are no results.
\<close>

theorem get_summary_success_rate:
  "success_rate (get_summary e) =
     (if results e = [] then 0
      else real (length (filter (\<lambda>r. result_status r = ''success'') (results e)))
           / real (length (results e)))
   \<and> 0 \<le> success_rate (get_summary e) \<and> success_rate (get_summary e) \<le> 1"
proof -
  let ?s = "filter (\<lambda>r. result_status r = ''success'') (results e)"
  have "length ?s \<le> length (results e)" by (rule length_filter_le)
  then have "real (length ?s) / real (length (results e)) \<le> 1"
    by (simp add: divide_le_eq_1)
  then show ?thesis by (simp add: get_summary_def Let_def)
qed

theorem get_summary_success_rate_witness:
  "success_rate (get_summary mixed) = 1 / 2
   \<and> success_rate (get_summary (fst (reset mixed fresh_world))) = 0"
  using get_summary_success_rate [of mixed]
    get_summary_success_rate [of "fst (reset mixed fresh_world)"]
  by (simp add: mixed_def reset_def Let_def)

subsection \<open>save and the status field\<close>

text \<open>
  C10. Every call of \<^verbatim>\<open>save\<close>, with any file name, sets the status in the metadata to
  "running" and stamps the time of the call as last_save, whatever the status was before
  and whether or not the write succeeds. This holds for the save inside \<^verbatim>\<open>finish\<close>
  and for the automatic save of \<^verbatim>\<open>run_single\<close>, which happens when the hooks succeed,
  auto-save is on and the incremented counter is a multiple of the interval.
\<close>

theorem save_overwrites_status:
  "metadata (fst (snd (save fn e w))) ''status'' = Some (MStr ''running'')
   \<and> metadata (fst (snd (save fn e w))) ''last_save'' = Some (MStr (isoformat (now w)))
   \<and> metadata (fst (snd (finish e w))) ''status'' = Some (MStr ''running'')
   \<and> metadata (fst (snd (finish e w))) ''last_save'' = Some (MStr (isoformat (now w)))
   \<and> (auto_save e \<and> save_interval e \<noteq> 0
        \<and> (current_iteration e + 1) mod save_interval e = 0
        \<and> validate_input hk x = Inr True \<and> process_input hk x = Inr p
        \<and> generate_output hk p = Inr out \<and> validate_output hk out = Inr True
      \<longrightarrow> metadata (fst (snd (run_single hk x e w))) ''status'' = Some (MStr ''running'')
          \<and> metadata (fst (snd (run_single hk x e w))) ''last_save''
              = Some (MStr (isoformat (now w))))"
proof -
  have a: "metadata (fst (snd (save fn e w))) ''status'' = Some (MStr ''running'')
   \<and> metadata (fst (snd (save fn e w))) ''last_save'' = Some (MStr (isoformat (now w)))"
    by (simp add: save_metadata)
  have c: "metadata (fst (snd (run_single hk x e w))) ''status'' = Some (MStr ''running'')
          \<and> metadata (fst (snd (run_single hk x e w))) ''last_save''
              = Some (MStr (isoformat (now w)))"
    if h: "auto_save e" "save_interval e \<noteq> 0"
        "(current_iteration e + 1) mod save_interval e = 0"
        "validate_input hk x = Inr True" "process_input hk x = Inr p"
        "generate_output hk p = Inr out" "validate_output hk out = Inr True"
  proof -
    let ?e2 = "e\<lparr>results := results e
                    @ [SuccessResult (current_iteration e) x p out (isoformat (now w))],
                  current_iteration := current_iteration e + 1\<rparr>"
    obtain r e3 w3 where s: "save None ?e2 w = (r, e3, w3)"
      using prod_cases3 by blast
    have m: "metadata e3 ''status'' = Some (MStr ''running'')
       \<and> metadata e3 ''last_save'' = Some (MStr (isoformat (now w)))"
      using save_metadata [of None ?e2 w] s by simp
    show ?thesis using h s m
      by (cases r; simp add: run_single_def try_body_def Let_def split: exc.splits)
  qed
  show ?thesis using a finish_metadata [of e w] c by simp
qed

theorem save_overwrites_status_witness:
  "metadata (fst (snd (save (Some ''copy.pkl'')
       (mixed\<lparr>metadata := (metadata mixed)(''status'' \<mapsto> MStr ''finished'')\<rparr>) full_disk)))
     ''status'' = Some (MStr ''running'')
   \<and> metadata (fst (snd (finish
       (mixed\<lparr>metadata := (metadata mixed)(''status'' \<mapsto> MStr ''reset'')\<rparr>) fresh_world)))
     ''status'' = Some (MStr ''running'')
   \<and> auto_save (constructed ''demo'' ''out'' 1 True noon :: nat experiment_template)
   \<and> (current_iteration (constructed ''demo'' ''out'' 1 True noon :: nat experiment_template) + 1)
        mod save_interval (constructed ''demo'' ''out'' 1 True noon :: nat experiment_template) = 0
   \<and> metadata (fst (snd (run_single passing_hooks 7
        (constructed ''demo'' ''out'' 1 True noon) fresh_world))) ''status''
       = Some (MStr ''running'')"
  using save_overwrites_status [of "Some ''copy.pkl''"
      "mixed\<lparr>metadata := (metadata mixed)(''status'' \<mapsto> MStr ''finished'')\<rparr>" full_disk]
    save_overwrites_status [of None
      "mixed\<lparr>metadata := (metadata mixed)(''status'' \<mapsto> MStr ''reset'')\<rparr>" fresh_world]
    save_overwrites_status [of None "constructed ''demo'' ''out'' 1 True noon" fresh_world
      passing_hooks 7 7 7]
  by (simp add: passing_hooks_def constructed_def)

subsection \<open>finish\<close>

text \<open>
  C2 (the code departs from the claim). \<^verbatim>\<open>finish()\<close> assigns the status "finished" and
  then calls \<^verbatim>\<open>save\<close>, which assigns "running": on a freshly constructed experiment
  "demo" with no iteration run, \<^verbatim>\<open>finish()\<close> returns normally, writes
  \<^verbatim>\<open>demo_final.pkl\<close> and \<^verbatim>\<open>demo_final.json\<close>, and leaves the status "running" both in
  memory and in the checkpoint it wrote.
\<close>

theorem finish_leaves_status_running:
  "init ''demo'' ''out'' 1 True fresh_world
     = (Inr (constructed ''demo'' ''out'' 1 True noon), fresh_world)
   \<and> fst (finish (constructed ''demo'' ''out'' 1 True noon) fresh_world) = Inr ()
   \<and> metadata (fst (snd (finish (constructed ''demo'' ''out'' 1 True noon) fresh_world)))
        ''status'' = Some (MStr ''running'')
   \<and> map fname (files (snd (snd (finish (constructed ''demo'' ''out'' 1 True noon) fresh_world))))
        = [''demo_final.pkl'', ''demo_final.json'']
   \<and> map stored_status
        (files (snd (snd (finish (constructed ''demo'' ''out'' 1 True noon) fresh_world))))
        = [Some (MStr ''running''), None]"
  using init_demo [of 1 True]
  by (simp add: finish_def run_defs constructed_def fresh_world_def stored_status_def noon_def)

subsection \<open>run_single: the counter and the automatic save\<close>

text \<open>
  C1 (the code departs from the claim). The automatic save is inside the \<^verbatim>\<open>try\<close>
  statement, after the result is appended and the counter incremented. When it raises,
  the handler appends a second entry and increments the counter a second time: with
  \<^verbatim>\<open>save_interval=0\<close> and \<^verbatim>\<open>auto_save=True\<close> one call of \<^verbatim>\<open>run_single\<close> with hooks
  that succeed takes the counter from 0 to 2 and leaves a success entry and an error
  entry; so does one call with \<^verbatim>\<open>save_interval=1\<close> on a disk where the write fails.
\<close>

theorem run_single_counts_twice:
  "init ''demo'' ''out'' 0 True fresh_world
     = (Inr (constructed ''demo'' ''out'' 0 True noon), fresh_world)
   \<and> fst (run_single passing_hooks 7 (constructed ''demo'' ''out'' 0 True noon) fresh_world)
       = Inr (ErrorResult 1 7 ''integer modulo by zero'' ''2024-01-01T12:00:00'')
   \<and> current_iteration
        (fst (snd (run_single passing_hooks 7 (constructed ''demo'' ''out'' 0 True noon) fresh_world)))
       = 2
   \<and> map result_status (results
        (fst (snd (run_single passing_hooks 7 (constructed ''demo'' ''out'' 0 True noon) fresh_world))))
       = [''success'', ''error'']
   \<and> current_iteration
        (fst (snd (run_single passing_hooks 7 (constructed ''demo'' ''out'' 1 True noon) full_disk)))
       = 2"
  using init_demo [of 0 True]
  by (simp add: run_defs constructed_def fresh_world_def full_disk_def passing_hooks_def noon_def)

text \<open>
  The scenario of three successful calls with \<^verbatim>\<open>save_interval=2\<close> and
  \<^verbatim>\<open>auto_save=True\<close>: nothing is saved by the first call, the second call saves once, and
  the third call saves nothing more.
\<close>

lemma three_runs_one_save:
  "stdout (snd (step 7 (constructed ''demo'' ''out'' 2 True noon, fresh_world))) = []
   \<and> stdout (snd (step 8 (step 7 (constructed ''demo'' ''out'' 2 True noon, fresh_world))))
       = [ProgressSaved ''out/demo_progress_20240101_120000.pkl'']
   \<and> stdout (snd (step 9 (step 8 (step 7 (constructed ''demo'' ''out'' 2 True noon, fresh_world)))))
       = [ProgressSaved ''out/demo_progress_20240101_120000.pkl'']
   \<and> current_iteration
        (fst (step 9 (step 8 (step 7 (constructed ''demo'' ''out'' 2 True noon, fresh_world))))) = 3
   \<and> map result_status (results
        (fst (step 9 (step 8 (step 7 (constructed ''demo'' ''out'' 2 True noon, fresh_world))))))
       = [''success'', ''success'', ''success'']"
  by (simp add: step_def run_defs constructed_def fresh_world_def passing_hooks_def noon_def)

text \<open>
  C3 (the code departs from the claim). The handler of \<^verbatim>\<open>run_single\<close> increments the
  counter and returns without the auto-save test. With the defaults \<^verbatim>\<open>save_interval=1\<close>
  and \<^verbatim>\<open>auto_save=True\<close>, a call whose \<^verbatim>\<open>process_input\<close> raises takes the counter to
  1, a multiple of the interval, and writes nothing and prints nothing; the same call with
  hooks that succeed writes the checkpoint and its companion.
\<close>

theorem run_single_error_skips_auto_save:
  "init ''demo'' ''out'' 1 True fresh_world
     = (Inr (constructed ''demo'' ''out'' 1 True noon), fresh_world)
   \<and> auto_save (constructed ''demo'' ''out'' 1 True noon :: nat experiment_template)
   \<and> fst (run_single raising_hooks 7 (constructed ''demo'' ''out'' 1 True noon) fresh_world)
       = Inr (ErrorResult 0 7 ''boom'' ''2024-01-01T12:00:00'')
   \<and> current_iteration
        (fst (snd (run_single raising_hooks 7 (constructed ''demo'' ''out'' 1 True noon) fresh_world)))
       mod save_interval (constructed ''demo'' ''out'' 1 True noon :: nat experiment_template) = 0
   \<and> snd (snd (run_single raising_hooks 7 (constructed ''demo'' ''out'' 1 True noon) fresh_world))
       = fresh_world
   \<and> files fresh_world = []
   \<and> map fname (files (snd (snd
        (run_single passing_hooks 7 (constructed ''demo'' ''out'' 1 True noon) fresh_world))))
       = [''demo_progress_20240101_120000.pkl'', ''demo_progress_20240101_120000.json'']"
  using init_demo [of 1 True]
  by (simp add: run_defs constructed_def fresh_world_def raising_hooks_def passing_hooks_def
      noon_def)

subsection \<open>run_single: what is caught\<close>




subsection \<open>Errors of the file system\<close>




subsection \<open>Resume at construction\<close>

text \<open>
  What \<^verbatim>\<open>__init__\<close> does when the directories can be created, \<^verbatim>\<open>glob\<close> returns and
  \<^verbatim>\<open>stat()\<close> succeeds on every candidate. With no candidate the empty state stays (counter
  0, no results, status "initialized"). Otherwise the file chosen is a candidate whose
  modification time no candidate exceeds, whatever the names are; when it unpickles to a
  dictionary, the metadata, the results and the counter are replaced by the values it holds
  (by the \<^verbatim>\<open>.get\<close> defaults for a missing key), and when reading it fails with an
  exception within \<^verbatim>\<open>Exception\<close> the empty state stays.
\<close>

lemma init_selects_latest:
  assumes "mkdir_error (w :: 'a world) out = None" "mkdir_error w (path_join out ''logs'') = None"
    "mkdir_error w (path_join out ''benchmarks'') = None"
  shows
   "(glob out (name @ ''_progress_*.pkl'') w = Inr []
        \<longrightarrow> init name out interval auto w
              = (Inr (constructed name out interval auto (now w)), w))
    \<and> (glob out (name @ ''_progress_*.pkl'') w = Inr (f # fs) \<and> first_stat_error (f # fs) = None
        \<longrightarrow> max_mtime f fs \<in> set (f # fs)
            \<and> (\<forall>g \<in> set (f # fs). mtime g \<le> mtime (max_mtime f fs))
            \<and> (pickle_load (content (max_mtime f fs)) = Inr (SaveData md rs it nm)
                \<longrightarrow> fst (init name out interval auto w)
                      = Inr ((constructed name out interval auto (now w))
                          \<lparr>metadata := (case md of None \<Rightarrow>
                                          metadata (constructed name out interval auto (now w)
                                                     :: 'a experiment_template)
                                        | Some m \<Rightarrow> m),
                           results := (case rs of None \<Rightarrow> [] | Some r \<Rightarrow> r),
                           current_iteration := (case it of None \<Rightarrow> 0 | Some i \<Rightarrow> i)\<rparr>))
            \<and> (pickle_load (content (max_mtime f fs)) = Inl (Exception msg)
                 \<or> pickle_load (content (max_mtime f fs)) = Inr (NonDict msg)
                \<longrightarrow> fst (init name out interval auto w)
                      = Inr (constructed name out interval auto (now w))))
    \<and> current_iteration (constructed name out interval auto (now w) :: 'a experiment_template) = 0
    \<and> results (constructed name out interval auto (now w) :: 'a experiment_template) = []
    \<and> metadata (constructed name out interval auto (now w) :: 'a experiment_template) ''status''
        = Some (MStr ''initialized'')"
proof -
  let ?e0 = "constructed name out interval auto (now w) :: 'a experiment_template"
  let ?cands = "glob out (name @ ''_progress_*.pkl'') w"
  have i: "init name out interval auto w =
             (case load_progress ?e0 w of
                (Inl ex, e3, w3) \<Rightarrow> (Inl ex, w3)
              | (Inr loaded, e3, w3) \<Rightarrow> (Inr e3, w3))"
    using assms by (rule init_loads)
  have g: "glob (output_dir ?e0) (experiment_name ?e0 @ ''_progress_*.pkl'') w = ?cands"
    by simp
  have b: "init name out interval auto w = (Inr ?e0, w)" if "?cands = Inr []"
    using that i load_progress_none [of ?e0 w] g by simp
  have c1: "max_mtime f fs \<in> set (f # fs)"
    by (rule max_mtime_in)
  have c2: "\<forall>g \<in> set (f # fs). mtime g \<le> mtime (max_mtime f fs)"
    using max_mtime_ge [of _ f fs] by blast
  have c3: "fst (init name out interval auto w)
              = Inr (?e0\<lparr>metadata := (case md of None \<Rightarrow> metadata ?e0 | Some m \<Rightarrow> m),
                       results := (case rs of None \<Rightarrow> [] | Some r \<Rightarrow> r),
                       current_iteration := (case it of None \<Rightarrow> 0 | Some i \<Rightarrow> i)\<rparr>)"
    if h: "?cands = Inr (f # fs)" "first_stat_error (f # fs) = None"
      "pickle_load (content (max_mtime f fs)) = Inr (SaveData md rs it nm)"
  proof -
    obtain r e3 w3 where l: "load_progress ?e0 w = (r, e3, w3)"
      by (cases "load_progress ?e0 w")
    have "r = Inr True"
      using load_progress_loaded(1) [of ?e0 w f fs md rs it nm] g h l by simp
    moreover have "e3 = ?e0\<lparr>metadata := (case md of None \<Rightarrow> metadata ?e0 | Some m \<Rightarrow> m),
                       results := (case rs of None \<Rightarrow> [] | Some r \<Rightarrow> r),
                       current_iteration := (case it of None \<Rightarrow> 0 | Some i \<Rightarrow> i)\<rparr>"
      using load_progress_loaded(2) [of ?e0 w f fs md rs it nm] g h l by simp
    ultimately show ?thesis using i l by simp
  qed
  have c4: "fst (init name out interval auto w) = Inr ?e0"
    if h: "?cands = Inr (f # fs)" "first_stat_error (f # fs) = None"
      "pickle_load (content (max_mtime f fs)) = Inl (Exception msg)
                 \<or> pickle_load (content (max_mtime f fs)) = Inr (NonDict msg)"
    using h i load_progress_failed [of ?e0 w f fs msg] g by simp
  have d: "current_iteration ?e0 = 0 \<and> results ?e0 = []
           \<and> metadata ?e0 ''status'' = Some (MStr ''initialized'')"
    by simp
  have B: "?cands = Inr [] \<longrightarrow> init name out interval auto w = (Inr ?e0, w)"
    using b by (rule impI)
  have C: "?cands = Inr (f # fs) \<and> first_stat_error (f # fs) = None
        \<longrightarrow> max_mtime f fs \<in> set (f # fs)
            \<and> (\<forall>g \<in> set (f # fs). mtime g \<le> mtime (max_mtime f fs))
            \<and> (pickle_load (content (max_mtime f fs)) = Inr (SaveData md rs it nm)
                \<longrightarrow> fst (init name out interval auto w)
                      = Inr (?e0\<lparr>metadata := (case md of None \<Rightarrow> metadata ?e0 | Some m \<Rightarrow> m),
                           results := (case rs of None \<Rightarrow> [] | Some r \<Rightarrow> r),
                           current_iteration := (case it of None \<Rightarrow> 0 | Some i \<Rightarrow> i)\<rparr>))
            \<and> (pickle_load (content (max_mtime f fs)) = Inl (Exception msg)
                 \<or> pickle_load (content (max_mtime f fs)) = Inr (NonDict msg)
                \<longrightarrow> fst (init name out interval auto w) = Inr ?e0)"
  proof (rule impI)
    assume h: "?cands = Inr (f # fs) \<and> first_stat_error (f # fs) = None"
    then have h1: "?cands = Inr (f # fs)" and h2: "first_stat_error (f # fs) = None"
      by simp_all
    show "max_mtime f fs \<in> set (f # fs)
            \<and> (\<forall>g \<in> set (f # fs). mtime g \<le> mtime (max_mtime f fs))
            \<and> (pickle_load (content (max_mtime f fs)) = Inr (SaveData md rs it nm)
                \<longrightarrow> fst (init name out interval auto w)
                      = Inr (?e0\<lparr>metadata := (case md of None \<Rightarrow> metadata ?e0 | Some m \<Rightarrow> m),
                           results := (case rs of None \<Rightarrow> [] | Some r \<Rightarrow> r),
                           current_iteration := (case it of None \<Rightarrow> 0 | Some i \<Rightarrow> i)\<rparr>))
            \<and> (pickle_load (content (max_mtime f fs)) = Inl (Exception msg)
                 \<or> pickle_load (content (max_mtime f fs)) = Inr (NonDict msg)
                \<longrightarrow> fst (init name out interval auto w) = Inr ?e0)"
      using c1 c2 c3 [OF h1 h2] c4 [OF h1 h2] by (intro conjI impI)
  qed
  show ?thesis by (rule conjI [OF B conjI [OF C d]])
qed

text \<open>
  The checkpoint with the later modification time is the one loaded, though its name is
  the smaller one; a later file of another experiment is not a candidate; a checkpoint
  that cannot be unpickled leaves the empty state.
\<close>

lemma init_two_checkpoints:
  "init ''demo'' ''out'' 1 True fresh_world
     = (Inr (constructed ''demo'' ''out'' 1 True noon), fresh_world)
   \<and> fst (init ''demo'' ''out'' 1 True two_checkpoints)
     = Inr ((constructed ''demo'' ''out'' 1 True noon)
         \<lparr>metadata := [''status'' \<mapsto> MStr ''running''],
          results := [SuccessResult 0 7 7 7 ''2024-01-01T00:00:00''],
          current_iteration := 1\<rparr>)
   \<and> fst (init ''demo'' ''out'' 1 True corrupt_world)
     = Inr (constructed ''demo'' ''out'' 1 True noon)"
proof -
  let ?f1 = "\<lparr>dir = ''out'', fname = ''demo_progress_20240102_000000.pkl'', mtime = 5,
          stat_error = None,
          content = PickleOf (SaveData (Some [''status'' \<mapsto> MStr ''running''])
                      (Some []) (Some 0) (Some ''demo''))\<rparr> :: nat fs_file"
  let ?f2 = "\<lparr>dir = ''out'', fname = ''demo_progress_20240101_000000.pkl'', mtime = 9,
          stat_error = None,
          content = PickleOf (SaveData (Some [''status'' \<mapsto> MStr ''running''])
                      (Some [SuccessResult 0 7 7 7 ''2024-01-01T00:00:00''])
                      (Some 1) (Some ''demo''))\<rparr> :: nat fs_file"
  let ?c = "\<lparr>dir = ''out'', fname = ''demo_progress_20240101_090000.pkl'', mtime = 9,
                  stat_error = None, content = Garbage ''pickle data was truncated''\<rparr>
            :: nat fs_file"
  have g0: "glob ''out'' ''demo_progress_*.pkl'' fresh_world = Inr []"
    by (simp add: glob_def fresh_world_def)
  have g2: "glob ''out'' ''demo_progress_*.pkl'' two_checkpoints = Inr [?f1, ?f2]"
    by (simp add: glob_def two_checkpoints_def fresh_world_def)
  have gc: "glob ''out'' ''demo_progress_*.pkl'' corrupt_world = Inr [?c]"
    by (simp add: glob_def corrupt_world_def fresh_world_def)
  have m2: "max_mtime ?f1 [?f2] = ?f2" by (simp add: max_mtime_def)
  have mc: "max_mtime ?c [] = ?c" by (simp add: max_mtime_def)
  have n: "now fresh_world = noon" "now two_checkpoints = noon" "now corrupt_world = noon"
    "mkdir_error fresh_world = (\<lambda>d. None)" "mkdir_error two_checkpoints = (\<lambda>d. None)"
    "mkdir_error corrupt_world = (\<lambda>d. None)"
    by (simp_all add: fresh_world_def two_checkpoints_def corrupt_world_def)
  show ?thesis
    using init_selects_latest [where w = fresh_world and out = "''out''"
        and name = "''demo''" and interval = 1 and auto = True]
      init_selects_latest [where w = two_checkpoints and out = "''out''"
        and name = "''demo''" and interval = 1 and auto = True and f = ?f1 and fs = "[?f2]"
        and md = "Some [''status'' \<mapsto> MStr ''running'']"
        and rs = "Some [SuccessResult 0 7 7 7 ''2024-01-01T00:00:00'']"
        and it = "Some 1" and nm = "Some ''demo''"]
      init_selects_latest [where w = corrupt_world and out = "''out''"
        and name = "''demo''" and interval = 1 and auto = True and f = ?c and fs = "[]"
        and msg = "''pickle data was truncated''"]
    by (simp add: g0 g2 gc m2 mc n)
qed

lemmas roundtrip_defs = saved_def after_one_run_def run_defs constructed_def fresh_world_def
  passing_hooks_def noon_def init_def mkdir_def init_logging_def init_benchmark_dir_def
  load_progress_def glob_def max_mtime_def bracket_def in_class_def

text \<open>
  C6 (the code departs from the claim). \<^verbatim>\<open>_load_progress\<close> puts the experiment name into
  the glob pattern as it is, and calls \<^verbatim>\<open>glob\<close> and \<^verbatim>\<open>stat()\<close> before its \<^verbatim>\<open>try\<close>
  statement. In a directory that holds only the checkpoint of the experiment \<^verbatim>\<open>ab\<close>
  (one iteration run), a new instance named \<^verbatim>\<open>a[b]\<close> lists that file, though its name
  does not begin with \<^verbatim>\<open>a[b]_progress_\<close>, and takes over the metadata, the result and
  the counter 1 of \<^verbatim>\<open>ab\<close>. In an empty directory, where no file matches, constructing
  an instance named \<^verbatim>\<open>a**b\<close> raises \<^verbatim>\<open>ValueError\<close> instead of starting from the empty
  state. And when the only candidate of \<^verbatim>\<open>demo\<close> is a dangling symbolic link, the
  constructor raises the \<^verbatim>\<open>OSError\<close> of \<^verbatim>\<open>stat()\<close>.
\<close>

theorem resume_reads_name_as_pattern:
  "map fname (files (snd (snd (saved ''ab''))))
       = [''ab_progress_20240101_120000.pkl'', ''ab_progress_20240101_120000.json'']
   \<and> metadata (fst (snd (saved ''ab''))) ''experiment_name'' = Some (MStr ''ab'')
   \<and> length (results (fst (snd (saved ''ab'')))) = 1
   \<and> fst (init ''a[b]'' ''out'' 5 True (snd (snd (saved ''ab''))))
       = Inr ((constructed ''a[b]'' ''out'' 5 True noon)
               \<lparr>metadata := metadata (fst (snd (saved ''ab''))),
                results := results (fst (snd (saved ''ab''))),
                current_iteration := 1\<rparr>)
   \<and> files fresh_world = []
   \<and> fst (init ''a**b'' ''out'' 5 True fresh_world)
       = Inl (Exception ''Invalid pattern: '**' can only be an entire path component'')
   \<and> map fname (files dangling_link) = [''demo_progress_20240101_090000.pkl'']
   \<and> fst (init ''demo'' ''out'' 5 True dangling_link)
       = Inl (Exception ''No such file or directory'')"
  by (simp add: roundtrip_defs dangling_link_def)

subsection \<open>Save, then resume\<close>

text \<open>
  C7 (the code departs from the claim). \<^verbatim>\<open>_load_progress\<close> puts the experiment name into
  the glob pattern as it is, so a name with a bracket expression does not match the file
  that \<^verbatim>\<open>save\<close> wrote under that name. For the experiment \<^verbatim>\<open>a[b]\<close> after one
  iteration, \<^verbatim>\<open>save()\<close> succeeds and writes \<^verbatim>\<open>a[b]_progress_20240101_120000.pkl\<close>
  with counter 1 and one result; a new instance with the same name and directory finds no
  checkpoint and starts with counter 0 and no results. The same steps with the name
  \<^verbatim>\<open>demo\<close> give back the saved instance.
\<close>

theorem save_then_resume_bracket_name:
  "fst (saved ''a[b]'') = Inr ''out/a[b]_progress_20240101_120000.pkl''
   \<and> map fname (files (snd (snd (saved ''a[b]''))))
       = [''a[b]_progress_20240101_120000.pkl'', ''a[b]_progress_20240101_120000.json'']
   \<and> current_iteration (fst (snd (saved ''a[b]''))) = 1
   \<and> length (results (fst (snd (saved ''a[b]'')))) = 1
   \<and> \<not> fnmatch ''a[b]_progress_*.pkl'' ''a[b]_progress_20240101_120000.pkl''
   \<and> fst (init ''a[b]'' ''out'' 5 True (snd (snd (saved ''a[b]''))))
       = Inr (constructed ''a[b]'' ''out'' 5 True noon)
   \<and> current_iteration (constructed ''a[b]'' ''out'' 5 True noon :: nat experiment_template) = 0
   \<and> results (constructed ''a[b]'' ''out'' 5 True noon :: nat experiment_template) = []
   \<and> fst (init ''demo'' ''out'' 5 True (snd (snd (saved ''demo''))))
       = Inr (fst (snd (saved ''demo'')))"
  by (simp add: roundtrip_defs)

end
